theory Spec2Isabelle
  imports Main
begin

section \<open>slogf: a leveled logging facade over log/slog\<close>

text \<open>
  The package \<^verbatim>\<open>slogf\<close> (file \<^verbatim>\<open>setup.go\<close>) keeps one process-wide
  \<^verbatim>\<open>*slog.Logger\<close>, installs it with \<^verbatim>\<open>InitLogging\<close>, and offers ten
  emitters: \<^verbatim>\<open>Debug\<close>, \<^verbatim>\<open>Info\<close>, \<^verbatim>\<open>Warn\<close>, \<^verbatim>\<open>Error\<close>,
  \<^verbatim>\<open>Fatal\<close> and their printf-style twins. The emitters call into the Go
  standard library (\<^verbatim>\<open>log/slog\<close>, \<^verbatim>\<open>path/filepath\<close>, \<^verbatim>\<open>strings\<close>,
  \<^verbatim>\<open>os\<close>); the parts of the library that the package reaches are modelled first,
  then the package itself.
\<close>

subsection \<open>Values, attributes and records\<close>

text \<open>
  \<^verbatim>\<open>slog.Source\<close>: the resolved frame of a program counter.
\<close>

record Source =
  Function :: string
  File :: string
  Line :: int

text \<open>
  The dynamic values (\<^verbatim>\<open>any\<close>) that reach the emitters. Go's \<^verbatim>\<open>any\<close> is open;
  the universe kept here is: the untyped nil, strings, integers, booleans, times,
  \<^verbatim>\<open>slog.Level\<close>, a non-nil \<^verbatim>\<open>*slog.Source\<close>, and an \<^verbatim>\<open>slog.Attr\<close>.
  Group values and \<^verbatim>\<open>LogValuer\<close>s are outside it. \<^verbatim>\<open>slog.Level\<close> is a Go
  \<^verbatim>\<open>int\<close>; no arithmetic on the paths below can overflow, so it is an \<open>int\<close> here.
\<close>

datatype any =
    VNil
  | VString string
  | VInt int
  | VBool bool
  | VTime nat
  | VLevel int
  | VSource Source
  | VAttr string any

text \<open>An \<^verbatim>\<open>slog.Attr\<close> is a key and a value.\<close>

type_synonym Attr = "string \<times> any"

abbreviation Key :: "Attr \<Rightarrow> string" where
  "Key a \<equiv> fst a"

abbreviation Value :: "Attr \<Rightarrow> any" where
  "Value a \<equiv> snd a"

text \<open>
  \<^verbatim>\<open>slog.Record\<close>. The program counter is kept as the frame it resolves to; the
  zero time is \<open>0\<close>.
\<close>

record Record =
  Time :: nat
  Message :: string
  Level :: int
  PC :: Source
  Attrs :: "Attr list"

definition LevelDebug :: int where "LevelDebug = -4"
definition LevelInfo :: int where "LevelInfo = 0"
definition LevelWarn :: int where "LevelWarn = 4"
definition LevelError :: int where "LevelError = 8"

text \<open>\<^verbatim>\<open>const LevelFatal = slog.Level(12)\<close> (setup.go).\<close>

definition LevelFatal :: int where "LevelFatal = 12"

definition TimeKey :: string where "TimeKey = ''time''"
definition LevelKey :: string where "LevelKey = ''level''"
definition MessageKey :: string where "MessageKey = ''msg''"
definition SourceKey :: string where "SourceKey = ''source''"
definition badKey :: string where "badKey = ''!BADKEY''"

subsection \<open>Printing integers and levels\<close>

definition digit :: "nat \<Rightarrow> char" where
  "digit d = char_of (48 + d)"

fun utoa :: "nat \<Rightarrow> string" where
  "utoa n = (if n < 10 then [digit n] else utoa (n div 10) @ [digit (n mod 10)])"

declare utoa.simps [simp del]

text \<open>The verb \<^verbatim>\<open>%d\<close>.\<close>

definition itoa :: "int \<Rightarrow> string" where
  "itoa i = (if i < 0 then CHR ''-'' # utoa (nat (- i)) else utoa (nat i))"

text \<open>The verb \<^verbatim>\<open>%+d\<close>: the sign is always written.\<close>

definition itoa_signed :: "int \<Rightarrow> string" where
  "itoa_signed i = (if i < 0 then CHR ''-'' # utoa (nat (- i)) else CHR ''+'' # utoa (nat i))"

text \<open>
  \<^verbatim>\<open>func (l Level) String() string\<close>: the name of the nearest named level below,
  followed by the signed offset when there is one.
\<close>

definition str :: "string \<Rightarrow> int \<Rightarrow> string" where
  "str base val = (if val = 0 then base else base @ itoa_signed val)"

definition Level_String :: "int \<Rightarrow> string" where
  "Level_String l =
     (if l < LevelInfo then str ''DEBUG'' (l - LevelDebug)
      else if l < LevelWarn then str ''INFO'' (l - LevelInfo)
      else if l < LevelError then str ''WARN'' (l - LevelWarn)
      else str ''ERROR'' (l - LevelError))"

subsection \<open>strings.ToLower and filepath.Base\<close>

text \<open>
  \<^verbatim>\<open>strings.ToLower\<close> on the bytes of a string: an ASCII capital becomes its small
  letter. Bytes outside ASCII stay as they are here; Go maps the runes they encode by
  the Unicode tables, and no rune outside ASCII has \<^verbatim>\<open>t\<close>, \<^verbatim>\<open>e\<close> or
  \<^verbatim>\<open>x\<close> as its lower case, so the comparison with \<^verbatim>\<open>"text"\<close> is not affected.
\<close>

definition lower :: "char \<Rightarrow> char" where
  "lower c = (let n = (of_char c :: nat) in if 65 \<le> n \<and> n \<le> 90 then char_of (n + 32) else c)"

definition ToLower :: "string \<Rightarrow> string" where
  "ToLower s = map lower s"

text \<open>
  \<^verbatim>\<open>filepath.Base\<close> with the separator \<^verbatim>\<open>/\<close> (no volume names): the empty path
  gives \<^verbatim>\<open>"."\<close>; trailing separators are dropped; what follows the last separator
  is kept; a path of separators only gives \<^verbatim>\<open>"/"\<close>.
\<close>

definition IsPathSeparator :: "char \<Rightarrow> bool" where
  "IsPathSeparator c = (c = CHR ''/'')"

definition Base :: "string \<Rightarrow> string" where
  "Base path =
     (if path = [] then ''.''
      else let stripped = rev (dropWhile IsPathSeparator (rev path));
               elem = rev (takeWhile (\<lambda>c. \<not> IsPathSeparator c) (rev stripped))
           in if elem = [] then ''/'' else elem)"

subsection \<open>Building a record: slog.NewRecord and Record.Add\<close>

definition NewRecord :: "nat \<Rightarrow> int \<Rightarrow> string \<Rightarrow> Source \<Rightarrow> Record" where
  "NewRecord t level msg pc = \<lparr>Time = t, Message = msg, Level = level, PC = pc, Attrs = []\<rparr>"

text \<open>
  \<^verbatim>\<open>argsToAttr\<close> turns the front of a non-empty argument list (its head and its
  tail here) into one attribute and returns what is left: a string is a key and takes
  the next element as its value, or is itself the value of \<^verbatim>\<open>!BADKEY\<close> when it is
  the last element; an \<^verbatim>\<open>Attr\<close> is taken as it is; anything else is a value with no
  key and goes under \<^verbatim>\<open>!BADKEY\<close>.
\<close>

fun argsToAttr :: "any \<Rightarrow> any list \<Rightarrow> Attr \<times> any list" where
  "argsToAttr (VString x) [] = ((badKey, VString x), [])"
| "argsToAttr (VString x) (v # rest) = ((x, v), rest)"
| "argsToAttr (VAttr k v) rest = ((k, v), rest)"
| "argsToAttr x rest = ((badKey, x), rest)"

text \<open>The loop of \<^verbatim>\<open>Record.Add\<close>: \<^verbatim>\<open>for len(args) > 0 { a, args = argsToAttr(args); ... }\<close>.\<close>

function argsToAttrs :: "any list \<Rightarrow> Attr list" where
  "argsToAttrs [] = []"
| "argsToAttrs (x # rest) = fst (argsToAttr x rest) # argsToAttrs (snd (argsToAttr x rest))"
  by pat_completeness auto
termination
proof (relation "measure length")
  show "wf (measure length)" by simp
next
  fix x :: any and rest :: "any list"
  show "(snd (argsToAttr x rest), x # rest) \<in> measure length"
    by (cases "(x, rest)" rule: argsToAttr.cases) auto
qed

definition Add :: "Record \<Rightarrow> any list \<Rightarrow> Record" where
  "Add r args = r\<lparr>Attrs := Attrs r @ argsToAttrs args\<rparr>"

subsection \<open>Handlers\<close>

text \<open>
  \<^verbatim>\<open>slog.HandlerOptions\<close>. The field \<^verbatim>\<open>Level\<close> is a \<^verbatim>\<open>Leveler\<close> that may
  be nil. The third field, \<^verbatim>\<open>ReplaceAttr\<close>, is not a field of the model: every
  handler that \<^verbatim>\<open>InitLogging\<close> builds carries the same callback, \<open>replace\<close> below.
\<close>

record HandlerOptions =
  AddSource :: bool
  OptLevel :: "int option"

text \<open>The common part of the text and the JSON handler.\<close>

record Handler =
  json :: bool
  opts :: HandlerOptions

definition NewTextHandler :: "HandlerOptions \<Rightarrow> Handler" where
  "NewTextHandler ho = \<lparr>json = False, opts = ho\<rparr>"

definition NewJSONHandler :: "HandlerOptions \<Rightarrow> Handler" where
  "NewJSONHandler ho = \<lparr>json = True, opts = ho\<rparr>"

text \<open>
  \<^verbatim>\<open>Enabled\<close>: the level is at or above the minimum, which is \<^verbatim>\<open>LevelInfo\<close>
  when the options name none.
\<close>

definition minLevel :: "Handler \<Rightarrow> int" where
  "minLevel h = (case OptLevel (opts h) of None \<Rightarrow> LevelInfo | Some l \<Rightarrow> l)"

definition Enabled :: "Handler \<Rightarrow> int \<Rightarrow> bool" where
  "Enabled h level = (level \<ge> minLevel h)"

text \<open>
  What a handler writes is kept structured: the fields of one line in the order they
  are appended, each a key and a rendered value. Quoting, escaping and the layout of
  times are below this model.
\<close>

datatype rendered =
    RNull
  | RString string
  | RInt int
  | RBool bool
  | RTime nat
  | RObject "(string \<times> rendered) list"
  | ROpaque any

datatype Line =
    TextLine (fieldsOf: "(string \<times> rendered) list")
  | JSONLine (fieldsOf: "(string \<times> rendered) list")

datatype panic = NilPointerDereference | InterfaceConversion

subsection \<open>The attribute rewrite of InitLogging\<close>

text \<open>
  The closure \<^verbatim>\<open>replace\<close> of \<^verbatim>\<open>InitLogging\<close>. Both type assertions are of the
  one-result form, which panics when the value has another dynamic type. The source
  assigns the base name through the pointer; the attribute then carries the updated
  \<^verbatim>\<open>Source\<close>.
\<close>

definition replace :: "string list \<Rightarrow> Attr \<Rightarrow> panic + Attr" where
  "replace groups a =
     (case (if Key a = SourceKey
            then (case Value a of
                    VSource source \<Rightarrow> Inr (Key a, VSource (source\<lparr>File := Base (File source)\<rparr>))
                  | _ \<Rightarrow> Inl InterfaceConversion)
            else Inr a) of
        Inl p \<Rightarrow> Inl p
      | Inr a1 \<Rightarrow>
          if Key a1 = LevelKey
          then (case Value a1 of
                  VLevel level \<Rightarrow>
                    Inr (''level'', if level = LevelFatal then VString ''FATAL'' else VLevel level)
                | _ \<Rightarrow> Inl InterfaceConversion)
          else Inr a1)"

subsection \<open>Rendering one record\<close>

text \<open>An attribute with the empty key and the nil value is dropped.\<close>

definition isEmpty :: "Attr \<Rightarrow> bool" where
  "isEmpty a = (Key a = [] \<and> Value a = VNil)"

text \<open>
  A value other than a \<^verbatim>\<open>*Source\<close>. A level is written by its \<^verbatim>\<open>String\<close> method
  (through \<^verbatim>\<open>MarshalText\<close> and \<^verbatim>\<open>MarshalJSON\<close>); an \<^verbatim>\<open>Attr\<close> used as a value
  is left to the encoders. The handler never reaches the \<open>VSource\<close> equation.
\<close>

fun appendValue :: "any \<Rightarrow> rendered" where
  "appendValue VNil = RNull"
| "appendValue (VString s) = RString s"
| "appendValue (VInt i) = RInt i"
| "appendValue (VBool b) = RBool b"
| "appendValue (VTime t) = RTime t"
| "appendValue (VLevel l) = RString (Level_String l)"
| "appendValue (VSource s) = ROpaque (VSource s)"
| "appendValue (VAttr k v) = ROpaque (VAttr k v)"

text \<open>
  \<^verbatim>\<open>Source.group\<close>: the non-zero members of a source, as the JSON handler nests
  them. Their keys are none of the keys \<open>replace\<close> looks at.
\<close>

definition Source_group :: "Source \<Rightarrow> (string \<times> rendered) list" where
  "Source_group s =
     (if Function s \<noteq> [] then [(''function'', RString (Function s))] else []) @
     (if File s \<noteq> [] then [(''file'', RString (File s))] else []) @
     (if Line s \<noteq> 0 then [(''line'', RInt (Line s))] else [])"

text \<open>
  \<^verbatim>\<open>handleState.appendAttr\<close>: rewrite, drop the empty attribute, then write. A source
  is \<^verbatim>\<open>file:line\<close> in text and a nested object in JSON, where an empty object is
  left out and an object under the empty key is inlined.
\<close>

definition appendAttr :: "Handler \<Rightarrow> Attr \<Rightarrow> panic + (string \<times> rendered) list" where
  "appendAttr h a =
     (case replace [] a of
        Inl p \<Rightarrow> Inl p
      | Inr a1 \<Rightarrow>
          if isEmpty a1 then Inr []
          else (case Value a1 of
                  VSource src \<Rightarrow>
                    if json h
                    then (let g = Source_group src
                          in if g = [] then Inr []
                             else if Key a1 = [] then Inr g
                             else Inr [(Key a1, RObject g)])
                    else Inr [(Key a1, RString (File src @ '':'' @ itoa (Line src)))]
                | v \<Rightarrow> Inr [(Key a1, appendValue v)]))"

text \<open>One step after another; the first panic ends the rendering.\<close>

definition andThen ::
  "panic + (string \<times> rendered) list \<Rightarrow> panic + (string \<times> rendered) list
     \<Rightarrow> panic + (string \<times> rendered) list" where
  "andThen a b =
     (case a of
        Inl p \<Rightarrow> Inl p
      | Inr xs \<Rightarrow> (case b of Inl p \<Rightarrow> Inl p | Inr ys \<Rightarrow> Inr (xs @ ys)))"

fun appendNonBuiltIns :: "Handler \<Rightarrow> Attr list \<Rightarrow> panic + (string \<times> rendered) list" where
  "appendNonBuiltIns h [] = Inr []"
| "appendNonBuiltIns h (a # as) = andThen (appendAttr h a) (appendNonBuiltIns h as)"

text \<open>
  \<^verbatim>\<open>commonHandler.handle\<close> up to the write: the time unless it is zero, the level,
  the source when \<^verbatim>\<open>AddSource\<close> is set, the message, then the attributes of the
  record.
\<close>

definition builtIns :: "Handler \<Rightarrow> Record \<Rightarrow> panic + (string \<times> rendered) list" where
  "builtIns h r =
     andThen (if Time r \<noteq> 0 then appendAttr h (TimeKey, VTime (Time r)) else Inr [])
    (andThen (appendAttr h (LevelKey, VLevel (Level r)))
    (andThen (if AddSource (opts h) then appendAttr h (SourceKey, VSource (PC r)) else Inr [])
             (appendAttr h (MessageKey, VString (Message r)))))"

definition handle :: "Handler \<Rightarrow> Record \<Rightarrow> panic + Line" where
  "handle h r =
     (case andThen (builtIns h r) (appendNonBuiltIns h (Attrs r)) of
        Inl p \<Rightarrow> Inl p
      | Inr fs \<Rightarrow> Inr (if json h then JSONLine fs else TextLine fs))"

subsection \<open>The process: logger, standard output, exit\<close>

text \<open>
  What a call leaves behind, in order: a format step (\<^verbatim>\<open>fmt.Sprintf\<close>), a record
  handed to the handler, a write of one line to standard output with its success, the
  exit of the process, and an effect of the caller's own code.
\<close>

datatype event =
    Formatted string "any list"
  | Handled Record
  | Wrote Line bool
  | Exit int
  | Effect string

text \<open>
  The state of the process: the package variable \<^verbatim>\<open>Logger\<close> (\<open>None\<close> is the nil
  pointer it starts as), the clock that \<^verbatim>\<open>time.Now\<close> reads, whether standard
  output accepts a write, and the events so far.
\<close>

record world =
  Logger :: "Handler option"
  now :: nat
  stdout_ok :: bool
  trace :: "event list"

datatype error = WriteError

text \<open>How a call ends: it returns, the process exits with a status, or it panics.\<close>

datatype outcome = Returned | Exited int | Panicked panic

text \<open>\<^verbatim>\<open>h.w.Write\<close> on \<^verbatim>\<open>os.Stdout\<close>: one attempt, its error returned.\<close>

definition Write :: "Line \<Rightarrow> world \<Rightarrow> error option \<times> world" where
  "Write line w =
     (if stdout_ok w then (None, w\<lparr>trace := trace w @ [Wrote line True]\<rparr>)
      else (Some WriteError, w\<lparr>trace := trace w @ [Wrote line False]\<rparr>))"

text \<open>
  \<^verbatim>\<open>Handler.Handle\<close>: render the record, then write the line. A panic of the
  rewrite leaves the handler before anything is written.
\<close>

definition Handle :: "Handler \<Rightarrow> Record \<Rightarrow> world \<Rightarrow> (panic + error option) \<times> world" where
  "Handle h r w =
     (let w1 = w\<lparr>trace := trace w @ [Handled r]\<rparr>
      in (case handle h r of
            Inl p \<Rightarrow> (Inl p, w1)
          | Inr line \<Rightarrow> (let (err, w2) = Write line w1 in (Inr err, w2))))"

definition os_Exit :: "int \<Rightarrow> world \<Rightarrow> outcome \<times> world" where
  "os_Exit code w = (Exited code, w\<lparr>trace := trace w @ [Exit code]\<rparr>)"

text \<open>
  \<^verbatim>\<open>fmt.Sprintf\<close> is a parameter of the printf-style emitters: a total function from
  the template and the arguments to the message. Calling it is an event.
\<close>

definition Sprintf ::
  "(string \<Rightarrow> any list \<Rightarrow> string) \<Rightarrow> string \<Rightarrow> any list \<Rightarrow> world \<Rightarrow> string \<times> world" where
  "Sprintf sprintf format args w =
     (sprintf format args, w\<lparr>trace := trace w @ [Formatted format args]\<rparr>)"

subsection \<open>InitLogging\<close>

text \<open>
  \<^verbatim>\<open>InitLogging(debug bool, format string)\<close>: four assignments to \<^verbatim>\<open>Logger\<close>,
  chosen by the flag and by the lower-cased format.
\<close>

definition InitLogging :: "bool \<Rightarrow> string \<Rightarrow> world \<Rightarrow> outcome \<times> world" where
  "InitLogging debug format w =
     (if debug = True then
        (if ToLower format = ''text''
         then (Returned, w\<lparr>Logger := Some (NewTextHandler
                 \<lparr>AddSource = True, OptLevel = Some LevelDebug\<rparr>)\<rparr>)
         else (Returned, w\<lparr>Logger := Some (NewJSONHandler
                 \<lparr>AddSource = True, OptLevel = Some LevelDebug\<rparr>)\<rparr>))
      else
        (if ToLower format = ''text''
         then (Returned, w\<lparr>Logger := Some (NewTextHandler
                 \<lparr>AddSource = True, OptLevel = Some LevelInfo\<rparr>)\<rparr>)
         else (Returned, w\<lparr>Logger := Some (NewJSONHandler
                 \<lparr>AddSource = True, OptLevel = Some LevelInfo\<rparr>)\<rparr>)))"

subsection \<open>The ten emitters\<close>

text \<open>
  Each emitter takes, besides its Go parameters, the frame that
  \<^verbatim>\<open>runtime.Callers(2, pcs[:])\<close> captures: its direct caller. The first step of each
  is \<^verbatim>\<open>Logger.Enabled\<close>, which reads through the pointer \<^verbatim>\<open>Logger\<close>.
\<close>

text \<open>\<^verbatim>\<open>func Debug(format string, args ...any)\<close>\<close>

definition Debug :: "string \<Rightarrow> any list \<Rightarrow> Source \<Rightarrow> world \<Rightarrow> outcome \<times> world" where
  "Debug format args caller w =
     (case Logger w of
        None \<Rightarrow> (Panicked NilPointerDereference, w)
      | Some l \<Rightarrow>
          if \<not> Enabled l LevelDebug then (Returned, w)
          else let r = NewRecord (now w) LevelDebug format caller;
                   r = Add r args
               in (case Handle l r w of
                     (Inl p, w1) \<Rightarrow> (Panicked p, w1)
                   | (Inr err, w1) \<Rightarrow> (Returned, w1)))"

text \<open>\<^verbatim>\<open>func Debugf(format string, args ...any)\<close>\<close>

definition Debugf ::
  "(string \<Rightarrow> any list \<Rightarrow> string) \<Rightarrow> string \<Rightarrow> any list \<Rightarrow> Source \<Rightarrow> world
     \<Rightarrow> outcome \<times> world" where
  "Debugf sprintf format args caller w =
     (case Logger w of
        None \<Rightarrow> (Panicked NilPointerDereference, w)
      | Some l \<Rightarrow>
          if \<not> Enabled l LevelDebug then (Returned, w)
          else let (msg, w1) = Sprintf sprintf format args w;
                   r = NewRecord (now w) LevelDebug msg caller
               in (case Handle l r w1 of
                     (Inl p, w2) \<Rightarrow> (Panicked p, w2)
                   | (Inr err, w2) \<Rightarrow> (Returned, w2)))"

text \<open>\<^verbatim>\<open>func Info(format string, args ...any)\<close>\<close>

definition Info :: "string \<Rightarrow> any list \<Rightarrow> Source \<Rightarrow> world \<Rightarrow> outcome \<times> world" where
  "Info format args caller w =
     (case Logger w of
        None \<Rightarrow> (Panicked NilPointerDereference, w)
      | Some l \<Rightarrow>
          if \<not> Enabled l LevelInfo then (Returned, w)
          else let r = NewRecord (now w) LevelInfo format caller;
                   r = Add r args
               in (case Handle l r w of
                     (Inl p, w1) \<Rightarrow> (Panicked p, w1)
                   | (Inr err, w1) \<Rightarrow> (Returned, w1)))"

text \<open>\<^verbatim>\<open>func Infof(format string, args ...any)\<close>\<close>

definition Infof ::
  "(string \<Rightarrow> any list \<Rightarrow> string) \<Rightarrow> string \<Rightarrow> any list \<Rightarrow> Source \<Rightarrow> world
     \<Rightarrow> outcome \<times> world" where
  "Infof sprintf format args caller w =
     (case Logger w of
        None \<Rightarrow> (Panicked NilPointerDereference, w)
      | Some l \<Rightarrow>
          if \<not> Enabled l LevelInfo then (Returned, w)
          else let (msg, w1) = Sprintf sprintf format args w;
                   r = NewRecord (now w) LevelInfo msg caller
               in (case Handle l r w1 of
                     (Inl p, w2) \<Rightarrow> (Panicked p, w2)
                   | (Inr err, w2) \<Rightarrow> (Returned, w2)))"

text \<open>\<^verbatim>\<open>func Warn(format string, args ...any)\<close>\<close>

definition Warn :: "string \<Rightarrow> any list \<Rightarrow> Source \<Rightarrow> world \<Rightarrow> outcome \<times> world" where
  "Warn format args caller w =
     (case Logger w of
        None \<Rightarrow> (Panicked NilPointerDereference, w)
      | Some l \<Rightarrow>
          if \<not> Enabled l LevelWarn then (Returned, w)
          else let r = NewRecord (now w) LevelWarn format caller;
                   r = Add r args
               in (case Handle l r w of
                     (Inl p, w1) \<Rightarrow> (Panicked p, w1)
                   | (Inr err, w1) \<Rightarrow> (Returned, w1)))"

text \<open>\<^verbatim>\<open>func Warnf(format string, args ...any)\<close>\<close>

definition Warnf ::
  "(string \<Rightarrow> any list \<Rightarrow> string) \<Rightarrow> string \<Rightarrow> any list \<Rightarrow> Source \<Rightarrow> world
     \<Rightarrow> outcome \<times> world" where
  "Warnf sprintf format args caller w =
     (case Logger w of
        None \<Rightarrow> (Panicked NilPointerDereference, w)
      | Some l \<Rightarrow>
          if \<not> Enabled l LevelWarn then (Returned, w)
          else let (msg, w1) = Sprintf sprintf format args w;
                   r = NewRecord (now w) LevelWarn msg caller
               in (case Handle l r w1 of
                     (Inl p, w2) \<Rightarrow> (Panicked p, w2)
                   | (Inr err, w2) \<Rightarrow> (Returned, w2)))"

text \<open>\<^verbatim>\<open>func Error(format string, args ...any)\<close>\<close>

definition Error :: "string \<Rightarrow> any list \<Rightarrow> Source \<Rightarrow> world \<Rightarrow> outcome \<times> world" where
  "Error format args caller w =
     (case Logger w of
        None \<Rightarrow> (Panicked NilPointerDereference, w)
      | Some l \<Rightarrow>
          if \<not> Enabled l LevelError then (Returned, w)
          else let r = NewRecord (now w) LevelError format caller;
                   r = Add r args
               in (case Handle l r w of
                     (Inl p, w1) \<Rightarrow> (Panicked p, w1)
                   | (Inr err, w1) \<Rightarrow> (Returned, w1)))"

text \<open>\<^verbatim>\<open>func Errorf(format string, args ...any)\<close>\<close>

definition Errorf ::
  "(string \<Rightarrow> any list \<Rightarrow> string) \<Rightarrow> string \<Rightarrow> any list \<Rightarrow> Source \<Rightarrow> world
     \<Rightarrow> outcome \<times> world" where
  "Errorf sprintf format args caller w =
     (case Logger w of
        None \<Rightarrow> (Panicked NilPointerDereference, w)
      | Some l \<Rightarrow>
          if \<not> Enabled l LevelError then (Returned, w)
          else let (msg, w1) = Sprintf sprintf format args w;
                   r = NewRecord (now w) LevelError msg caller
               in (case Handle l r w1 of
                     (Inl p, w2) \<Rightarrow> (Panicked p, w2)
                   | (Inr err, w2) \<Rightarrow> (Returned, w2)))"

text \<open>\<^verbatim>\<open>func Fatal(format string, args ...any)\<close>: as the others, then \<^verbatim>\<open>os.Exit(1)\<close>.\<close>

definition Fatal :: "string \<Rightarrow> any list \<Rightarrow> Source \<Rightarrow> world \<Rightarrow> outcome \<times> world" where
  "Fatal format args caller w =
     (case Logger w of
        None \<Rightarrow> (Panicked NilPointerDereference, w)
      | Some l \<Rightarrow>
          if \<not> Enabled l LevelFatal then (Returned, w)
          else let r = NewRecord (now w) LevelFatal format caller;
                   r = Add r args
               in (case Handle l r w of
                     (Inl p, w1) \<Rightarrow> (Panicked p, w1)
                   | (Inr err, w1) \<Rightarrow> os_Exit 1 w1))"

text \<open>\<^verbatim>\<open>func Fatalf(format string, args ...any)\<close>: as the others, then \<^verbatim>\<open>os.Exit(1)\<close>.\<close>

definition Fatalf ::
  "(string \<Rightarrow> any list \<Rightarrow> string) \<Rightarrow> string \<Rightarrow> any list \<Rightarrow> Source \<Rightarrow> world
     \<Rightarrow> outcome \<times> world" where
  "Fatalf sprintf format args caller w =
     (case Logger w of
        None \<Rightarrow> (Panicked NilPointerDereference, w)
      | Some l \<Rightarrow>
          if \<not> Enabled l LevelFatal then (Returned, w)
          else let (msg, w1) = Sprintf sprintf format args w;
                   r = NewRecord (now w) LevelFatal msg caller
               in (case Handle l r w1 of
                     (Inl p, w2) \<Rightarrow> (Panicked p, w2)
                   | (Inr err, w2) \<Rightarrow> os_Exit 1 w2))"

subsection \<open>The call surface as one family\<close>

text \<open>
  The ten entry points, named so that a statement can range over all of them.
\<close>

datatype emitter =
  EDebug | EDebugf | EInfo | EInfof | EWarn | EWarnf | EError | EErrorf | EFatal | EFatalf

fun call ::
  "(string \<Rightarrow> any list \<Rightarrow> string) \<Rightarrow> emitter \<Rightarrow> string \<Rightarrow> any list \<Rightarrow> Source \<Rightarrow> world
     \<Rightarrow> outcome \<times> world" where
  "call sprintf EDebug = Debug"
| "call sprintf EDebugf = Debugf sprintf"
| "call sprintf EInfo = Info"
| "call sprintf EInfof = Infof sprintf"
| "call sprintf EWarn = Warn"
| "call sprintf EWarnf = Warnf sprintf"
| "call sprintf EError = Error"
| "call sprintf EErrorf = Errorf sprintf"
| "call sprintf EFatal = Fatal"
| "call sprintf EFatalf = Fatalf sprintf"

text \<open>The severity an entry point logs at.\<close>

fun severity :: "emitter \<Rightarrow> int" where
  "severity EDebug = LevelDebug"
| "severity EDebugf = LevelDebug"
| "severity EInfo = LevelInfo"
| "severity EInfof = LevelInfo"
| "severity EWarn = LevelWarn"
| "severity EWarnf = LevelWarn"
| "severity EError = LevelError"
| "severity EErrorf = LevelError"
| "severity EFatal = LevelFatal"
| "severity EFatalf = LevelFatal"

text \<open>The printf-style entry points.\<close>

fun formatted :: "emitter \<Rightarrow> bool" where
  "formatted EDebugf = True"
| "formatted EInfof = True"
| "formatted EWarnf = True"
| "formatted EErrorf = True"
| "formatted EFatalf = True"
| "formatted e = False"

text \<open>The two entry points that end in \<^verbatim>\<open>os.Exit(1)\<close>.\<close>

fun fatal :: "emitter \<Rightarrow> bool" where
  "fatal EFatal = True"
| "fatal EFatalf = True"
| "fatal e = False"



text \<open>Which events of a trace are writes, and which are format steps.\<close>

definition isWrote :: "event \<Rightarrow> bool" where
  "isWrote ev = (case ev of Wrote line ok \<Rightarrow> True | _ \<Rightarrow> False)"

definition isFormatted :: "event \<Rightarrow> bool" where
  "isFormatted ev = (case ev of Formatted f a \<Rightarrow> True | _ \<Rightarrow> False)"

subsection \<open>A call site\<close>

text \<open>
  A Go call evaluates its argument expressions, in order, before the callee begins
  (the parameters are \<^verbatim>\<open>args ...any\<close>: values). An argument expression is a
  computation on the process state that yields a value.
\<close>

type_synonym expr = "world \<Rightarrow> any \<times> world"

fun evalArgs :: "expr list \<Rightarrow> world \<Rightarrow> any list \<times> world" where
  "evalArgs [] w = ([], w)"
| "evalArgs (e # es) w =
     (let (v, w1) = e w; (vs, w2) = evalArgs es w1 in (v # vs, w2))"

definition invoke ::
  "(any list \<Rightarrow> world \<Rightarrow> outcome \<times> world) \<Rightarrow> expr list \<Rightarrow> world \<Rightarrow> outcome \<times> world" where
  "invoke f es w = (let (vs, w1) = evalArgs es w in f vs w1)"

text \<open>An argument with a visible effect, as a test would count evaluations.\<close>

definition expensiveComputation :: expr where
  "expensiveComputation w = (VInt 42, w\<lparr>trace := trace w @ [Effect ''expensiveComputation'']\<rparr>)"

subsection \<open>Reading a call off the trace\<close>

text \<open>The events a call added to the trace it started from.\<close>

definition added :: "world \<Rightarrow> world \<Rightarrow> event list" where
  "added w w1 = drop (length (trace w)) (trace w1)"

text \<open>
  The record an emitter builds once the threshold check has passed (that the ten
  emitters build exactly this record is the lemma \<open>call_enabled\<close>).
\<close>

definition built ::
  "(string \<Rightarrow> any list \<Rightarrow> string) \<Rightarrow> emitter \<Rightarrow> string \<Rightarrow> any list \<Rightarrow> Source \<Rightarrow> world
     \<Rightarrow> Record" where
  "built sprintf e format args caller w =
     (if formatted e
      then NewRecord (now w) (severity e) (sprintf format args) caller
      else Add (NewRecord (now w) (severity e) format caller) args)"

subsection \<open>Example inputs\<close>

text \<open>The process before \<^verbatim>\<open>InitLogging\<close> has run: \<^verbatim>\<open>Logger\<close> is nil.\<close>

definition start :: world where
  "start = \<lparr>Logger = None, now = 1, stdout_ok = True, trace = []\<rparr>"


text \<open>A process whose host installed a threshold above \<^verbatim>\<open>LevelFatal\<close>.\<close>

definition quiet :: world where
  "quiet = \<lparr>Logger = Some (NewTextHandler \<lparr>AddSource = True, OptLevel = Some 16\<rparr>),
             now = 1, stdout_ok = True, trace = []\<rparr>"

text \<open>A call site.\<close>

definition site :: Source where
  "site = \<lparr>Function = ''main.main'', File = ''/home/u/app/main.go'', Line = 29\<rparr>"

text \<open>
  A stand-in for \<^verbatim>\<open>fmt.Sprintf\<close> in the examples. It is \<^verbatim>\<open>fmt.Sprintf\<close> on a
  template whose only verbs are \<^verbatim>\<open>%v\<close>, given no more arguments than verbs, each a
  string or an integer; it is not meant beyond that.
\<close>

fun showV :: "any \<Rightarrow> string" where
  "showV (VString s) = s"
| "showV (VInt i) = itoa i"
| "showV v = []"

fun sprintfV :: "string \<Rightarrow> any list \<Rightarrow> string" where
  "sprintfV [] args = []"
| "sprintfV [c] args = [c]"
| "sprintfV (c # d # rest) args =
     (if c = CHR ''%'' \<and> d = CHR ''v''
      then (case args of [] \<Rightarrow> ''%!v(MISSING)'' @ sprintfV rest [] | a # as \<Rightarrow> showV a @ sprintfV rest as)
      else c # sprintfV (d # rest) args)"

text \<open>The process after \<^verbatim>\<open>InitLogging(false, "json")\<close>.\<close>

definition jsonInfo :: world where
  "jsonInfo = snd (InitLogging False ''json'' start)"

text \<open>The process after \<^verbatim>\<open>InitLogging(true, "TEXT")\<close>.\<close>

definition textDebug :: world where
  "textDebug = snd (InitLogging True ''TEXT'' start)"

text \<open>The process after \<^verbatim>\<open>InitLogging(false, "text")\<close>.\<close>

definition textInfo :: world where
  "textInfo = snd (InitLogging False ''text'' start)"


text \<open>A record at the synthetic level, as \<^verbatim>\<open>Fatal("m")\<close> builds it at \<open>site\<close>.\<close>

definition fatalRecord :: Record where
  "fatalRecord = \<lparr>Time = 1, Message = ''m'', Level = LevelFatal, PC = site, Attrs = []\<rparr>"

section \<open>Properties\<close>

subsection \<open>Shared facts about the emitters\<close>

lemmas emitter_defs =
  Debug_def Debugf_def Info_def Infof_def Warn_def Warnf_def Error_def Errorf_def
  Fatal_def Fatalf_def

lemma call_nil:
  "Logger w = None \<Longrightarrow> call sprintf e format args caller w = (Panicked NilPointerDereference, w)"
  by (cases e) (simp_all add: emitter_defs)

lemma call_disabled:
  "Logger w = Some l \<Longrightarrow> \<not> Enabled l (severity e)
     \<Longrightarrow> call sprintf e format args caller w = (Returned, w)"
  by (cases e) (simp_all add: emitter_defs)

subsection \<open>Calls before InitLogging\<close>

text \<open>
  C9. Each of the ten emitters reads through \<^verbatim>\<open>Logger\<close> with no nil guard: called
  while \<^verbatim>\<open>Logger\<close> is still nil, it panics with a nil-pointer dereference at the
  threshold check, whatever the severity or the calling convention, and nothing else
  has happened by then.
\<close>

theorem C9_nil_logger_panics:
  "Logger w = None
     \<Longrightarrow> call sprintf e format args caller w = (Panicked NilPointerDereference, w)"
  by (rule call_nil)

theorem C9_nil_logger_panics_witness:
  "Logger start = None \<and>
   call sprintfV EDebug ''m'' [VString ''k'', VInt 1] site start
     = (Panicked NilPointerDereference, start) \<and>
   call sprintfV EFatalf ''%v'' [VInt 1] site start = (Panicked NilPointerDereference, start)"
proof -
  have h: "Logger start = None" by (simp add: start_def)
  show ?thesis
    using h C9_nil_logger_panics [OF h, of sprintfV EDebug "''m''" "[VString ''k'', VInt 1]" site]
      C9_nil_logger_panics [OF h, of sprintfV EFatalf "''%v''" "[VInt 1]" site]
    by simp
qed

subsection \<open>Fatal below the threshold\<close>

text \<open>
  C7. When the threshold of the installed logger excludes \<^verbatim>\<open>LevelFatal\<close> (it is
  above 12), \<^verbatim>\<open>Fatal\<close> and \<^verbatim>\<open>Fatalf\<close> return at once: no record, no write, no
  exit, the process state untouched. This holds for every threshold, also one that
  only a host-installed logger can have.
\<close>

theorem C7_fatal_honours_threshold:
  "Logger w = Some l \<Longrightarrow> \<not> Enabled l LevelFatal
     \<Longrightarrow> Enabled l LevelFatal = (minLevel l \<le> 12) \<and>
         Fatal format args caller w = (Returned, w) \<and>
         Fatalf sprintf format args caller w = (Returned, w)"
  by (simp add: Fatal_def Fatalf_def Enabled_def LevelFatal_def)

theorem C7_fatal_honours_threshold_witness:
  "Logger quiet = Some (NewTextHandler \<lparr>AddSource = True, OptLevel = Some 16\<rparr>) \<and>
   \<not> Enabled (NewTextHandler \<lparr>AddSource = True, OptLevel = Some 16\<rparr>) LevelFatal \<and>
   Fatal ''m'' [VString ''k'', VInt 1] site quiet = (Returned, quiet) \<and>
   Fatalf sprintfV ''%v'' [VInt 1] site quiet = (Returned, quiet)"
proof -
  have h1: "Logger quiet = Some (NewTextHandler \<lparr>AddSource = True, OptLevel = Some 16\<rparr>)"
    by (simp add: quiet_def)
  have h2: "\<not> Enabled (NewTextHandler \<lparr>AddSource = True, OptLevel = Some 16\<rparr>) LevelFatal"
    by (simp add: Enabled_def minLevel_def NewTextHandler_def LevelFatal_def)
  show ?thesis
    using h1 h2
      C7_fatal_honours_threshold [OF h1 h2, of "''m''" "[VString ''k'', VInt 1]" site sprintfV]
      C7_fatal_honours_threshold [OF h1 h2, of "''%v''" "[VInt 1]" site sprintfV]
    by simp
qed

subsection \<open>What an enabled call does\<close>

lemma Handle_eq:
  "Handle l r w =
     (case handle l r of
        Inl p \<Rightarrow> (Inl p, w\<lparr>trace := trace w @ [Handled r]\<rparr>)
      | Inr line \<Rightarrow>
          (Inr (if stdout_ok w then None else Some WriteError),
           w\<lparr>trace := trace w @ [Handled r, Wrote line (stdout_ok w)]\<rparr>))"
  by (simp add: Handle_def Write_def Let_def split: sum.splits)

lemma call_enabled:
  assumes "Logger w = Some l" "Enabled l (severity e)"
  shows "call sprintf e format args caller w =
     (let w0 = (if formatted e then w\<lparr>trace := trace w @ [Formatted format args]\<rparr> else w);
          r = built sprintf e format args caller w
      in case handle l r of
           Inl p \<Rightarrow> (Panicked p, w0\<lparr>trace := trace w0 @ [Handled r]\<rparr>)
         | Inr line \<Rightarrow>
             (if fatal e then Exited 1 else Returned,
              w0\<lparr>trace := trace w0 @ [Handled r, Wrote line (stdout_ok w)] @
                     (if fatal e then [Exit 1] else [])\<rparr>))"
  using assms
  by (cases e)
    (simp_all add: emitter_defs built_def Handle_eq Sprintf_def os_Exit_def Let_def
      split: sum.splits)

lemma call_panics:
  assumes "Logger w = Some l" "Enabled l (severity e)"
    "handle l (built sprintf e format args caller w) = Inl p"
  shows "fst (call sprintf e format args caller w) = Panicked p"
    and "added w (snd (call sprintf e format args caller w)) =
           (if formatted e then [Formatted format args] else []) @
           [Handled (built sprintf e format args caller w)]"
  using assms by (simp_all add: call_enabled added_def Let_def)

lemma call_writes:
  assumes "Logger w = Some l" "Enabled l (severity e)"
    "handle l (built sprintf e format args caller w) = Inr line"
  shows "fst (call sprintf e format args caller w) = (if fatal e then Exited 1 else Returned)"
    and "added w (snd (call sprintf e format args caller w)) =
           (if formatted e then [Formatted format args] else []) @
           [Handled (built sprintf e format args caller w), Wrote line (stdout_ok w)] @
           (if fatal e then [Exit 1] else [])"
  using assms by (simp_all add: call_enabled added_def Let_def)

lemma added_disabled:
  "Logger w = Some l \<Longrightarrow> \<not> Enabled l (severity e)
     \<Longrightarrow> added w (snd (call sprintf e format args caller w)) = []"
  by (simp add: call_disabled added_def)

text \<open>
  Threshold gating, as far as it holds for every call: below the threshold nothing
  happens; at or above it the record reaches the handler, and unless the rendering
  panics exactly one line is handed to standard output.
\<close>

lemma InitLogging_installs:
  "InitLogging debug format w =
     (Returned, w\<lparr>Logger := Some \<lparr>json = (ToLower format \<noteq> ''text''),
        opts = \<lparr>AddSource = True, OptLevel = Some (if debug then LevelDebug else LevelInfo)\<rparr>\<rparr>\<rparr>)"
  by (simp add: InitLogging_def NewTextHandler_def NewJSONHandler_def)

lemma InitLogging_threshold:
  "\<exists>h. Logger (snd (InitLogging debug format w)) = Some h \<and>
       minLevel h = (if debug then LevelDebug else LevelInfo)"
  by (simp add: InitLogging_installs minLevel_def)

lemma one_write_unless_panic:
  assumes "Logger w = Some l" "\<forall>p. fst (call sprintf e format args caller w) \<noteq> Panicked p"
  shows "length (filter isWrote (added w (snd (call sprintf e format args caller w)))) =
           (if Enabled l (severity e) then 1 else 0)"
proof (cases "Enabled l (severity e)")
  case False
  with assms(1) show ?thesis by (simp add: added_disabled)
next
  case True
  show ?thesis
  proof (cases "handle l (built sprintf e format args caller w)")
    case (Inl p)
    from call_panics(1) [OF assms(1) True Inl] assms(2) show ?thesis by blast
  next
    case (Inr line)
    from call_writes(2) [OF assms(1) True Inr] True show ?thesis
      by (simp add: isWrote_def)
  qed
qed

text \<open>
  Exit, as far as it holds for every call: only \<^verbatim>\<open>Fatal\<close> and \<^verbatim>\<open>Fatalf\<close> exit,
  with status 1, and the exit is the event right after the one write.
\<close>

lemma only_fatal_exits:
  assumes "fst (call sprintf e format args caller w) = Exited c"
  shows "fatal e \<and> c = 1"
proof (cases "Logger w")
  case None
  with assms show ?thesis by (simp add: call_nil)
next
  case (Some l)
  show ?thesis
  proof (cases "Enabled l (severity e)")
    case False
    with Some assms show ?thesis by (simp add: call_disabled)
  next
    case True
    show ?thesis
    proof (cases "handle l (built sprintf e format args caller w)")
      case (Inl p)
      from call_panics(1) [OF Some True Inl] assms show ?thesis by simp
    next
      case (Inr line)
      from call_writes(1) [OF Some True Inr] assms show ?thesis
        by (simp split: if_splits)
    qed
  qed
qed

lemma exit_follows_write:
  assumes "Logger w = Some l" "fst (call sprintf e format args caller w) = Exited c"
  shows "\<exists>r line. added w (snd (call sprintf e format args caller w)) =
           (if formatted e then [Formatted format args] else []) @
           [Handled r, Wrote line (stdout_ok w), Exit 1]"
proof (cases "Enabled l (severity e)")
  case False
  with assms show ?thesis by (simp add: call_disabled)
next
  case True
  show ?thesis
  proof (cases "handle l (built sprintf e format args caller w)")
    case (Inl p)
    from call_panics(1) [OF assms(1) True Inl] assms(2) show ?thesis by simp
  next
    case (Inr line)
    from call_writes [OF assms(1) True Inr] assms(2) show ?thesis
      by (auto split: if_splits)
  qed
qed

lemma fatal_exits_unless_panic:
  assumes "Logger w = Some l" "Enabled l (severity e)" "fatal e"
    "\<forall>p. fst (call sprintf e format args caller w) \<noteq> Panicked p"
  shows "fst (call sprintf e format args caller w) = Exited 1"
proof (cases "handle l (built sprintf e format args caller w)")
  case (Inl p)
  from call_panics(1) [OF assms(1,2) Inl] assms(4) show ?thesis by blast
next
  case (Inr line)
  from call_writes(1) [OF assms(1,2) Inr] assms(3) show ?thesis by simp
qed

subsection \<open>The format selector\<close>

lemma lower_eq_small:
  assumes "97 \<le> (of_char x :: nat)" "(of_char x :: nat) \<le> 122"
  shows "lower c = x \<longleftrightarrow> c = x \<or> (of_char c :: nat) + 32 = of_char x"
  using assms by (auto simp: lower_def Let_def char_of_eq_iff take_bit_eq_mod)

lemma lower_t: "lower c = CHR ''t'' \<longleftrightarrow> c = CHR ''t'' \<or> c = CHR ''T''"
proof -
  have "(of_char c :: nat) + 32 = 116 \<longleftrightarrow> (of_char c :: nat) = of_char (CHR ''T'')" by simp
  then have "(of_char c :: nat) + 32 = 116 \<longleftrightarrow> c = CHR ''T''"
    unfolding of_char_eq_iff .
  then show ?thesis
    using lower_eq_small[of "CHR ''t''" c] by simp
qed

lemma lower_e: "lower c = CHR ''e'' \<longleftrightarrow> c = CHR ''e'' \<or> c = CHR ''E''"
proof -
  have "(of_char c :: nat) + 32 = 101 \<longleftrightarrow> (of_char c :: nat) = of_char (CHR ''E'')" by simp
  then have "(of_char c :: nat) + 32 = 101 \<longleftrightarrow> c = CHR ''E''"
    unfolding of_char_eq_iff .
  then show ?thesis
    using lower_eq_small[of "CHR ''e''" c] by simp
qed

lemma lower_x: "lower c = CHR ''x'' \<longleftrightarrow> c = CHR ''x'' \<or> c = CHR ''X''"
proof -
  have "(of_char c :: nat) + 32 = 120 \<longleftrightarrow> (of_char c :: nat) = of_char (CHR ''X'')" by simp
  then have "(of_char c :: nat) + 32 = 120 \<longleftrightarrow> c = CHR ''X''"
    unfolding of_char_eq_iff .
  then show ?thesis
    using lower_eq_small[of "CHR ''x''" c] by simp
qed

lemma ToLower_text:
  "ToLower s = ''text'' \<longleftrightarrow>
     (\<exists>a b c d. s = [a, b, c, d] \<and> (a = CHR ''t'' \<or> a = CHR ''T'') \<and> (b = CHR ''e'' \<or> b = CHR ''E'')
        \<and> (c = CHR ''x'' \<or> c = CHR ''X'') \<and> (d = CHR ''t'' \<or> d = CHR ''T''))"
proof -
  have "ToLower s = ''text'' \<longleftrightarrow>
     (\<exists>a b c d. s = [a, b, c, d] \<and> lower a = CHR ''t'' \<and> lower b = CHR ''e''
        \<and> lower c = CHR ''x'' \<and> lower d = CHR ''t'')"
    unfolding ToLower_def by (auto simp: map_eq_Cons_conv)
  then show ?thesis
    by (simp only: lower_t lower_e lower_x)
qed

lemma ToLower_yaml: "ToLower ''yaml'' \<noteq> ''text''"
  by (simp add: ToLower_text)

text \<open>
  C3. \<^verbatim>\<open>InitLogging\<close> installs the text handler exactly when the lower-cased
  format is \<^verbatim>\<open>"text"\<close>, that is, when the format is one of the sixteen spellings
  of \<^verbatim>\<open>text\<close> in small and capital letters; every other format, \<^verbatim>\<open>"yaml"\<close>
  among them, installs the JSON handler. \<^verbatim>\<open>InitLogging\<close> always returns: it has no
  failure.
\<close>

theorem C3_format_selects_renderer:
  "fst (InitLogging debug format w) = Returned \<and>
   (\<exists>h. Logger (snd (InitLogging debug format w)) = Some h \<and>
        json h = (ToLower format \<noteq> ''text'')) \<and>
   (ToLower format = ''text'') =
     (\<exists>a b c d. format = [a, b, c, d] \<and> (a = CHR ''t'' \<or> a = CHR ''T'') \<and>
        (b = CHR ''e'' \<or> b = CHR ''E'') \<and> (c = CHR ''x'' \<or> c = CHR ''X'') \<and>
        (d = CHR ''t'' \<or> d = CHR ''T'')) \<and>
   (\<exists>h. Logger (snd (InitLogging debug ''yaml'' w)) = Some h \<and> json h)"
proof -
  have a: "fst (InitLogging debug format w) = Returned"
    by (simp add: InitLogging_installs)
  have b: "\<exists>h. Logger (snd (InitLogging debug format w)) = Some h \<and>
        json h = (ToLower format \<noteq> ''text'')"
    by (simp add: InitLogging_installs)
  have c: "\<exists>h. Logger (snd (InitLogging debug ''yaml'' w)) = Some h \<and> json h"
    using ToLower_yaml by (simp add: InitLogging_installs)
  from a b c ToLower_text [of format] show ?thesis by blast
qed

subsection \<open>The attribute rewrite on the built-in fields\<close>

lemma Base_no_separator: "CHR ''/'' \<in> set (Base path) \<Longrightarrow> Base path = ''/''"
  by (auto simp: Base_def Let_def IsPathSeparator_def dest: set_takeWhileD split: if_splits)

lemma Base_nonempty: "Base path \<noteq> []"
  by (simp add: Base_def Let_def)

lemma Base_strips_directory:
  assumes "name \<noteq> []" "CHR ''/'' \<notin> set name"
  shows "Base (dir @ ''/'' @ name) = name"
proof -
  from assms(1) obtain x xs where r: "rev name = x # xs"
    by (cases "rev name") auto
  then have "x \<in> set name"
    by (metis list.set_intros(1) set_rev)
  with assms(2) have l: "\<not> IsPathSeparator x"
    by (auto simp: IsPathSeparator_def)
  have e: "rev (dir @ ''/'' @ name) = x # (xs @ CHR ''/'' # rev dir)"
    using r by simp
  have d: "dropWhile IsPathSeparator (rev (dir @ ''/'' @ name)) = rev (dir @ ''/'' @ name)"
    unfolding e using l by simp
  have "takeWhile (\<lambda>c. \<not> IsPathSeparator c) (rev name @ CHR ''/'' # rev dir) = rev name"
    using assms(2) by (subst takeWhile_append2) (auto simp: IsPathSeparator_def)
  then have t: "takeWhile (\<lambda>c. \<not> IsPathSeparator c) (rev (dir @ ''/'' @ name)) = rev name"
    by simp
  have "Base (dir @ ''/'' @ name) =
      (let stripped = rev (dropWhile IsPathSeparator (rev (dir @ ''/'' @ name)));
           elem = rev (takeWhile (\<lambda>c. \<not> IsPathSeparator c) (rev stripped))
       in if elem = [] then ''/'' else elem)"
    by (simp add: Base_def)
  also have "\<dots> = name"
    unfolding d rev_rev_ident Let_def t using assms(1) by simp
  finally show ?thesis .
qed

lemma Level_String_head: "hd (Level_String l) \<in> {CHR ''D'', CHR ''I'', CHR ''W'', CHR ''E''}"
  by (simp add: Level_String_def str_def)

lemma Level_String_not_FATAL: "Level_String l \<noteq> ''FATAL''"
proof
  assume "Level_String l = ''FATAL''"
  then have "hd (Level_String l) = CHR ''F''" by simp
  with Level_String_head [of l] show False by simp
qed

lemma Level_String_named:
  "Level_String LevelDebug = ''DEBUG''" "Level_String LevelInfo = ''INFO''"
  "Level_String LevelWarn = ''WARN''" "Level_String LevelError = ''ERROR''"
  by (simp_all add: Level_String_def str_def LevelDebug_def LevelInfo_def LevelWarn_def
      LevelError_def)

lemma Level_String_Fatal: "Level_String LevelFatal = ''ERROR+4''"
  by code_simp

lemmas key_defs = TimeKey_def LevelKey_def SourceKey_def MessageKey_def

lemma appendAttr_level:
  "appendAttr h (LevelKey, VLevel l) =
     Inr [(''level'', RString (if l = LevelFatal then ''FATAL'' else Level_String l))]"
  by (simp add: appendAttr_def replace_def isEmpty_def key_defs)

lemma appendAttr_source:
  "appendAttr h (SourceKey, VSource s) =
     Inr [(''source'',
           if json h then RObject (Source_group (s\<lparr>File := Base (File s)\<rparr>))
           else RString (Base (File s) @ '':'' @ itoa (Line s)))]"
  by (simp add: appendAttr_def replace_def isEmpty_def key_defs Source_group_def Base_nonempty)

lemma appendAttr_time: "appendAttr h (TimeKey, VTime t) = Inr [(''time'', RTime t)]"
  by (simp add: appendAttr_def replace_def isEmpty_def key_defs)

lemma appendAttr_msg: "appendAttr h (MessageKey, VString m) = Inr [(''msg'', RString m)]"
  by (simp add: appendAttr_def replace_def isEmpty_def key_defs)

lemma builtIns_eq:
  "builtIns h r =
     Inr ((if Time r \<noteq> 0 then [(''time'', RTime (Time r))] else []) @
          [(''level'', RString (if Level r = LevelFatal then ''FATAL'' else Level_String (Level r)))] @
          (if AddSource (opts h)
           then [(''source'',
                  if json h then RObject (Source_group ((PC r)\<lparr>File := Base (File (PC r))\<rparr>))
                  else RString (Base (File (PC r)) @ '':'' @ itoa (Line (PC r))))]
           else []) @
          [(''msg'', RString (Message r))])"
  by (simp add: builtIns_def andThen_def appendAttr_level appendAttr_source appendAttr_time
      appendAttr_msg)

lemma handle_fields:
  "handle h r = Inr line \<Longrightarrow> builtIns h r = Inr bs \<Longrightarrow> \<exists>rest. fieldsOf line = bs @ rest"
  by (auto simp: handle_def andThen_def split: sum.splits if_splits)

text \<open>
  C4. Whatever the format, the built-in fields of a record come out of the rewrite like
  this: the level is written by its name, and the synthetic level 12, which
  \<^verbatim>\<open>Level.String\<close> calls \<^verbatim>\<open>ERROR+4\<close> (no level is called \<^verbatim>\<open>FATAL\<close> by it),
  as \<^verbatim>\<open>FATAL\<close>; the source carries the base name of its file, as \<^verbatim>\<open>file:line\<close> in
  text and as the member \<^verbatim>\<open>file\<close> in JSON. These fields head every rendered line.
  The base name of \<^verbatim>\<open>dir/name\<close> is \<^verbatim>\<open>name\<close>, and a base name holds no
  separator unless it is the root \<^verbatim>\<open>/\<close> itself.
\<close>

theorem C4_rewrite_source_and_level:
  "builtIns h r =
     Inr ((if Time r \<noteq> 0 then [(''time'', RTime (Time r))] else []) @
          [(''level'', RString (if Level r = LevelFatal then ''FATAL'' else Level_String (Level r)))] @
          (if AddSource (opts h)
           then [(''source'',
                  if json h then RObject (Source_group ((PC r)\<lparr>File := Base (File (PC r))\<rparr>))
                  else RString (Base (File (PC r)) @ '':'' @ itoa (Line (PC r))))]
           else []) @
          [(''msg'', RString (Message r))]) \<and>
   (handle h r = Inr line
      \<longrightarrow> (\<exists>bs rest. builtIns h r = Inr bs \<and> fieldsOf line = bs @ rest)) \<and>
   Level_String LevelFatal = ''ERROR+4'' \<and>
   Level_String l \<noteq> ''FATAL'' \<and>
   map Level_String [LevelDebug, LevelInfo, LevelWarn, LevelError] =
     [''DEBUG'', ''INFO'', ''WARN'', ''ERROR''] \<and>
   (name \<noteq> [] \<and> CHR ''/'' \<notin> set name \<longrightarrow> Base (dir @ ''/'' @ name) = name) \<and>
   (CHR ''/'' \<in> set (Base path) \<longrightarrow> Base path = ''/'')"
proof -
  have a: "handle h r = Inr line
      \<longrightarrow> (\<exists>bs rest. builtIns h r = Inr bs \<and> fieldsOf line = bs @ rest)"
    using handle_fields [of h r line] builtIns_eq [of h r] by blast
  have b: "name \<noteq> [] \<and> CHR ''/'' \<notin> set name \<longrightarrow> Base (dir @ ''/'' @ name) = name"
    using Base_strips_directory by blast
  have c: "CHR ''/'' \<in> set (Base path) \<longrightarrow> Base path = ''/''"
    using Base_no_separator by blast
  show ?thesis
    using a b c builtIns_eq [of h r] Level_String_Fatal Level_String_not_FATAL [of l]
      Level_String_named
    by simp
qed

theorem C4_rewrite_source_and_level_witness:
  "handle (NewJSONHandler \<lparr>AddSource = True, OptLevel = Some LevelInfo\<rparr>) fatalRecord =
     Inr (JSONLine [(''time'', RTime 1), (''level'', RString ''FATAL''),
       (''source'', RObject [(''function'', RString ''main.main''),
          (''file'', RString ''main.go''), (''line'', RInt 29)]),
       (''msg'', RString ''m'')]) \<and>
   handle (NewTextHandler \<lparr>AddSource = True, OptLevel = Some LevelInfo\<rparr>) fatalRecord =
     Inr (TextLine [(''time'', RTime 1), (''level'', RString ''FATAL''),
       (''source'', RString ''main.go:29''), (''msg'', RString ''m'')]) \<and>
   ''main.go'' \<noteq> [] \<and> CHR ''/'' \<notin> set ''main.go'' \<and>
   Base ''/home/u/app/main.go'' = ''main.go'' \<and>
   CHR ''/'' \<in> set (Base ''///'') \<and> Base ''///'' = ''/''"
proof -
  have j: "handle (NewJSONHandler \<lparr>AddSource = True, OptLevel = Some LevelInfo\<rparr>) fatalRecord =
     Inr (JSONLine [(''time'', RTime 1), (''level'', RString ''FATAL''),
       (''source'', RObject [(''function'', RString ''main.main''),
          (''file'', RString ''main.go''), (''line'', RInt 29)]),
       (''msg'', RString ''m'')])"
    by code_simp
  have t: "handle (NewTextHandler \<lparr>AddSource = True, OptLevel = Some LevelInfo\<rparr>) fatalRecord =
     Inr (TextLine [(''time'', RTime 1), (''level'', RString ''FATAL''),
       (''source'', RString ''main.go:29''), (''msg'', RString ''m'')])"
    by code_simp
  have n: "''main.go'' \<noteq> [] \<and> CHR ''/'' \<notin> set ''main.go''"
    by simp
  have s: "CHR ''/'' \<in> set (Base ''///'')"
    by code_simp
  from n s
    C4_rewrite_source_and_level [where name = "''main.go''" and dir = "''/home/u/app''"
      and path = "''///''" and h = "NewJSONHandler \<lparr>AddSource = True, OptLevel = Some LevelInfo\<rparr>"
      and r = fatalRecord and l = 12
      and line = "JSONLine [(''time'', RTime 1), (''level'', RString ''FATAL''),
       (''source'', RObject [(''function'', RString ''main.main''),
          (''file'', RString ''main.go''), (''line'', RInt 29)]),
       (''msg'', RString ''m'')]"]
  have "Base ''/home/u/app/main.go'' = ''main.go'' \<and> Base ''///'' = ''/''"
    by simp
  with j t n s show ?thesis by blast
qed

subsection \<open>The two calling conventions\<close>





text \<open>
  The example of the specification, in JSON as well: \<^verbatim>\<open>Info("m", "a", 1, "b", 2)\<close>
  writes \<^verbatim>\<open>a\<close>, then \<^verbatim>\<open>b\<close>, after the built-in fields.
\<close>

lemma attribute_order_json:
  "call sprintfV EInfo ''m'' [VString ''a'', VInt 1, VString ''b'', VInt 2] site jsonInfo =
     (Returned,
      jsonInfo\<lparr>trace :=
        [Handled \<lparr>Time = 1, Message = ''m'', Level = 0, PC = site,
                  Attrs = [(''a'', VInt 1), (''b'', VInt 2)]\<rparr>,
         Wrote (JSONLine [(''time'', RTime 1), (''level'', RString ''INFO''),
                  (''source'', RObject [(''function'', RString ''main.main''),
                     (''file'', RString ''main.go''), (''line'', RInt 29)]),
                  (''msg'', RString ''m''), (''a'', RInt 1), (''b'', RInt 2)]) True]\<rparr>)"
  by code_simp

subsection \<open>Lists that are not key, value, key, value\<close>






subsection \<open>Call arguments and the format step\<close>

text \<open>
  C6, as the claim states it, fails: the arguments of a Go call are evaluated before
  the callee runs. Under the threshold \<^verbatim>\<open>INFO\<close>,
  \<^verbatim>\<open>Debugf("%v", expensiveComputation())\<close> returns without formatting or writing,
  and the effect of \<^verbatim>\<open>expensiveComputation\<close> has taken place.
\<close>

theorem C6_arguments_evaluated_counterexample:
  "\<not> Enabled (NewTextHandler \<lparr>AddSource = True, OptLevel = Some LevelInfo\<rparr>) LevelDebug \<and>
   invoke (\<lambda>vs. Debugf sprintfV ''%v'' vs site) [expensiveComputation] textInfo =
     (Returned, textInfo\<lparr>trace := [Effect ''expensiveComputation'']\<rparr>)"
  by code_simp

text \<open>
  C6, amended. A call at a severity the threshold excludes returns at once and leaves
  the process as it found it: for the printf form, no format step takes place and no
  record is built. The arguments are values (\<^verbatim>\<open>args ...any\<close>): the caller has
  evaluated them before the emitter starts, so a call statement at an excluded severity
  does what evaluating its arguments does, and nothing more.
\<close>

theorem C6_no_format_step_when_excluded:
  "Logger w = Some l \<Longrightarrow> \<not> Enabled l (severity e)
     \<Longrightarrow> call sprintf e format args caller w = (Returned, w) \<and>
         filter isFormatted (added w (snd (call sprintf e format args caller w))) = [] \<and>
         (Logger (snd (evalArgs es w)) = Some l
            \<longrightarrow> invoke (\<lambda>vs. call sprintf e format vs caller) es w =
                  (Returned, snd (evalArgs es w)))"
  by (simp add: call_disabled added_def invoke_def split_beta)

theorem C6_no_format_step_when_excluded_witness:
  "Logger jsonInfo = Some (NewJSONHandler \<lparr>AddSource = True, OptLevel = Some LevelInfo\<rparr>) \<and>
   \<not> Enabled (NewJSONHandler \<lparr>AddSource = True, OptLevel = Some LevelInfo\<rparr>) (severity EDebugf) \<and>
   Logger (snd (evalArgs [expensiveComputation] jsonInfo)) =
     Some (NewJSONHandler \<lparr>AddSource = True, OptLevel = Some LevelInfo\<rparr>) \<and>
   call sprintfV EDebugf ''%v'' [VInt 42] site jsonInfo = (Returned, jsonInfo) \<and>
   invoke (\<lambda>vs. call sprintfV EDebugf ''%v'' vs site) [expensiveComputation] jsonInfo =
     (Returned, jsonInfo\<lparr>trace := [Effect ''expensiveComputation'']\<rparr>)"
proof -
  have h1: "Logger jsonInfo =
      Some (NewJSONHandler \<lparr>AddSource = True, OptLevel = Some LevelInfo\<rparr>)"
    by code_simp
  have h2: "\<not> Enabled (NewJSONHandler \<lparr>AddSource = True, OptLevel = Some LevelInfo\<rparr>)
      (severity EDebugf)"
    by code_simp
  have h3: "Logger (snd (evalArgs [expensiveComputation] jsonInfo)) =
     Some (NewJSONHandler \<lparr>AddSource = True, OptLevel = Some LevelInfo\<rparr>)"
    by code_simp
  have v: "snd (evalArgs [expensiveComputation] jsonInfo) =
      jsonInfo\<lparr>trace := [Effect ''expensiveComputation'']\<rparr>"
    by code_simp
  from C6_no_format_step_when_excluded [OF h1 h2, of sprintfV "''%v''" "[VInt 42]" site
      "[expensiveComputation]"] h3 v
  have "call sprintfV EDebugf ''%v'' [VInt 42] site jsonInfo = (Returned, jsonInfo) \<and>
      invoke (\<lambda>vs. call sprintfV EDebugf ''%v'' vs site) [expensiveComputation] jsonInfo =
        (Returned, jsonInfo\<lparr>trace := [Effect ''expensiveComputation'']\<rparr>)"
    by simp
  with h1 h2 h3 show ?thesis by blast
qed

subsection \<open>A write that fails\<close>





subsection \<open>An attribute named like a built-in field\<close>

text \<open>
  \<open>replace\<close> is applied to the attributes of the caller as well, and tells a
  built-in field by its key alone. It panics exactly on an attribute keyed
  \<^verbatim>\<open>source\<close> whose value is not a \<^verbatim>\<open>*slog.Source\<close>, or keyed \<^verbatim>\<open>level\<close> whose
  value is not a \<^verbatim>\<open>slog.Level\<close>; the built-in fields themselves never make it panic.
\<close>

lemma replace_panics_iff:
  "(\<exists>p. replace groups a = Inl p) =
     ((Key a = ''source'' \<and> (\<forall>s. Value a \<noteq> VSource s)) \<or>
      (Key a = ''level'' \<and> (\<forall>l. Value a \<noteq> VLevel l)))"
  by (cases "Value a") (auto simp: replace_def SourceKey_def LevelKey_def)

lemma appendAttr_panics_iff:
  "(\<exists>p. appendAttr h a = Inl p) = (\<exists>p. replace [] a = Inl p)"
  by (auto simp: appendAttr_def Let_def split: sum.splits any.splits if_splits)

lemma appendNonBuiltIns_panics_iff:
  "(\<exists>p. appendNonBuiltIns h as = Inl p) = (\<exists>a \<in> set as. \<exists>p. replace [] a = Inl p)"
proof (induction as)
  case Nil
  then show ?case by simp
next
  case (Cons a as)
  have "(\<exists>p. appendNonBuiltIns h (a # as) = Inl p) =
      ((\<exists>p. appendAttr h a = Inl p) \<or> (\<exists>p. appendNonBuiltIns h as = Inl p))"
    by (auto simp: andThen_def split: sum.splits)
  with Cons show ?case
    by (simp add: appendAttr_panics_iff)
qed

lemma handle_panics_iff:
  "(\<exists>p. handle h r = Inl p) = (\<exists>a \<in> set (Attrs r). \<exists>p. replace [] a = Inl p)"
proof -
  have "(\<exists>p. handle h r = Inl p) = (\<exists>p. appendNonBuiltIns h (Attrs r) = Inl p)"
    by (auto simp: handle_def builtIns_eq andThen_def split: sum.splits)
  then show ?thesis
    by (simp add: appendNonBuiltIns_panics_iff)
qed

text \<open>
  C1. The claim is what the package documents (\<^verbatim>\<open>Info level displays INFO, WARN,
  ERROR, FATAL logs\<close>, with attributes \<^verbatim>\<open>key1, value1, key2, value2\<close> of the caller's
  choice), and the code misses it: after \<^verbatim>\<open>InitLogging(false, "json")\<close> the call
  \<^verbatim>\<open>Info("m", "level", "high")\<close> is at the threshold, its record reaches the handler,
  and the type assertion of \<open>replace\<close> panics before anything is written.
\<close>

theorem C1_info_with_level_attribute_panics:
  "Logger jsonInfo = Some (NewJSONHandler \<lparr>AddSource = True, OptLevel = Some LevelInfo\<rparr>) \<and>
   Enabled (NewJSONHandler \<lparr>AddSource = True, OptLevel = Some LevelInfo\<rparr>) LevelInfo \<and>
   Info ''m'' [VString ''level'', VString ''high''] site jsonInfo =
     (Panicked InterfaceConversion,
      jsonInfo\<lparr>trace :=
        [Handled \<lparr>Time = 1, Message = ''m'', Level = 0, PC = site,
                  Attrs = [(''level'', VString ''high'')]\<rparr>]\<rparr>)"
  by code_simp

text \<open>
  C2. \<^verbatim>\<open>Fatal() exits the main program\<close>, says the package, and the claim with it;
  after \<^verbatim>\<open>InitLogging(true, "TEXT")\<close> the call
  \<^verbatim>\<open>Fatal("disk failing", "source", "sda1")\<close> hands its record over and panics in
  \<open>replace\<close>: no line is written and \<^verbatim>\<open>os.Exit(1)\<close> is not reached.
\<close>

theorem C2_fatal_with_source_attribute_panics:
  "Enabled (NewTextHandler \<lparr>AddSource = True, OptLevel = Some LevelDebug\<rparr>) LevelFatal \<and>
   Fatal ''disk failing'' [VString ''source'', VString ''sda1''] site textDebug =
     (Panicked InterfaceConversion,
      textDebug\<lparr>trace :=
        [Handled \<lparr>Time = 1, Message = ''disk failing'', Level = 12, PC = site,
                  Attrs = [(''source'', VString ''sda1'')]\<rparr>]\<rparr>)"
  by code_simp

end
